theory Spec2Isabelle
  imports Main "HOL-Library.Word"
begin

section \<open>The rolling-update orchestrator of manager/orchestrator/updater.go\<close>

text \<open>
  The updater is concurrent Go code: one goroutine runs \<open>Updater.Run\<close>, a pool of
  goroutines runs \<open>Updater.worker\<close>, other goroutines call \<open>Updater.Cancel\<close>, and the
  store and its watch queue are shared. The embedding is an interleaving semantics: every
  goroutine has a program counter, every statement that touches shared state is one
  atomic step, and an execution is a list of steps chosen by the scheduler. A blocked
  statement is a step that is not enabled; a Go panic stops the whole program.
\<close>

subsection \<open>Data of the api package\<close>

text \<open>
  Modelled from the spec: the api package (Task, Service, ContainerSpec, TaskState) is
  declared outside the source. The spec orders the observed states
  new, pending, assigned, accepted, preparing, ready, starting, running and names dead as
  a desired state; \<open>state_rank\<close> is that order, with dead after running.
\<close>

datatype TaskState =
    TaskStateNew | TaskStatePending | TaskStateAssigned | TaskStateAccepted
  | TaskStatePreparing | TaskStateReady | TaskStateStarting | TaskStateRunning
  | TaskStateDead

fun state_rank :: "TaskState \<Rightarrow> nat" where
  "state_rank TaskStateNew = 0"
| "state_rank TaskStatePending = 1"
| "state_rank TaskStateAssigned = 2"
| "state_rank TaskStateAccepted = 3"
| "state_rank TaskStatePreparing = 4"
| "state_rank TaskStateReady = 5"
| "state_rank TaskStateStarting = 6"
| "state_rank TaskStateRunning = 7"
| "state_rank TaskStateDead = 8"

datatype ServiceMode = ServiceModeReplicated | ServiceModeFill

text \<open>
  A container specification is compared by \<open>reflect.DeepEqual\<close> only, so its type is a
  parameter \<open>'c\<close>: two values are equal in HOL exactly when DeepEqual holds of them, and
  \<open>0\<close> is the zero value \<open>api.ContainerSpec{}\<close>.
\<close>

record 'c Container =
  ContainerSpec :: 'c

record TaskStatus =
  State :: TaskState

text \<open>
  \<open>t.GetContainer()\<close> is a pointer (the source takes the address of its \<open>Spec\<close> field),
  so a task may have none: \<open>TaskContainer t = None\<close> is the nil pointer.
\<close>

record 'c Task =
  ID :: string
  ServiceID :: string
  Instance :: nat
  NodeID :: string
  TaskContainer :: "'c Container option"
  DesiredState :: TaskState
  Status :: TaskStatus

text \<open>
  \<open>Parallelism\<close> is an unsigned 64-bit count that the source converts with \<open>int(...)\<close>;
  \<open>Delay\<close> is a duration in nanoseconds.
\<close>

record UpdateStrategy =
  Parallelism :: "64 word"
  Delay :: int

record 'c ServiceSpec =
  SpecContainer :: "'c option"
  Update :: "UpdateStrategy option"
  Mode :: ServiceMode

record 'c Service =
  ServiceIdent :: string
  Spec :: "'c ServiceSpec"

datatype panic = NilDereference | CloseOfClosedChannel | NegativeWaitGroupCounter

datatype error = ErrNotExist | ErrExist

subsection \<open>Updater.Run: diffing (lines 98-108)\<close>

text \<open>
  One iteration of the loop over \<open>tasks\<close>. With the service's container absent the first
  condition reads the task's container, otherwise \<open>&&\<close> skips it and the second
  condition reads it: a task without a container panics either way.
\<close>

definition isDirty :: "'c::zero Service \<Rightarrow> 'c Task \<Rightarrow> panic + bool" where
  "isDirty service t =
     (case TaskContainer t of
        None \<Rightarrow> Inl NilDereference
      | Some c \<Rightarrow>
          if SpecContainer (Spec service) = None \<and> ContainerSpec c = 0 then Inr False
          else if SpecContainer (Spec service) \<noteq> Some (ContainerSpec c) then Inr True
          else Inr False)"

fun dirtyTasks :: "'c::zero Service \<Rightarrow> 'c Task list \<Rightarrow> 'c Task list \<Rightarrow> panic + 'c Task list" where
  "dirtyTasks service acc [] = Inr acc"
| "dirtyTasks service acc (t # ts) =
     (case isDirty service t of
        Inl p \<Rightarrow> Inl p
      | Inr d \<Rightarrow> dirtyTasks service (if d then acc @ [t] else acc) ts)"

text \<open>
  The rule of the specification, in its words: (a) the service has a non-empty container
  specification and the task's differs from it, or (b) the service's is empty or absent
  and the task's is non-empty.
\<close>

definition emptySpec :: "'c::zero option \<Rightarrow> bool" where
  "emptySpec c = (c = None \<or> c = Some 0)"

definition dirtyRule :: "'c::zero Service \<Rightarrow> 'c Task \<Rightarrow> bool" where
  "dirtyRule service t =
     (case TaskContainer t of
        None \<Rightarrow> False
      | Some c \<Rightarrow>
          (\<not> emptySpec (SpecContainer (Spec service))
             \<and> SpecContainer (Spec service) \<noteq> Some (ContainerSpec c))
        \<or> (emptySpec (SpecContainer (Spec service)) \<and> ContainerSpec c \<noteq> 0))"

subsection \<open>The store and the watch queue\<close>

text \<open>
  Modelled from the spec: the packages store, state and watch are outside the source.
  The store maps task identifiers to tasks. \<open>Update\<close> runs a function against a
  transactional view and commits atomically or rejects wholesale; on commit the changes
  are published to the watch queue as events. \<open>GetTask\<close> yields nil for an identifier
  that is not stored and a copy of the task otherwise, \<open>UpdateTask\<close> fails on an
  identifier that is not stored and \<open>CreateTask\<close> on one that is.
\<close>

type_synonym 'c Store = "string \<rightharpoonup> 'c Task"

datatype 'c Event = EventCreateTask "'c Task" | EventUpdateTask "'c Task" | EventDeleteTask "'c Task"

record 'c Tx =
  view :: "'c Store"
  changes :: "'c Event list"

datatype 'a result = Panic panic | Failed error | Ok 'a

definition GetTask :: "'c Tx \<Rightarrow> string \<Rightarrow> 'c Task option" where
  "GetTask tx i = view tx i"

definition UpdateTask :: "'c Tx \<Rightarrow> 'c Task \<Rightarrow> error + 'c Tx" where
  "UpdateTask tx t =
     (if view tx (ID t) = None then Inl ErrNotExist
      else Inr (tx\<lparr>view := (view tx)(ID t \<mapsto> t), changes := changes tx @ [EventUpdateTask t]\<rparr>))"

definition CreateTask :: "'c Tx \<Rightarrow> 'c Task \<Rightarrow> error + 'c Tx" where
  "CreateTask tx t =
     (if view tx (ID t) \<noteq> None then Inl ErrExist
      else Inr (tx\<lparr>view := (view tx)(ID t \<mapsto> t), changes := changes tx @ [EventCreateTask t]\<rparr>))"

text \<open>
  Modelled from the spec: a subscription of \<open>state.Watch\<close>. The source subscribes to
  update events checked by task identifier only, so a subscription is the identifier it
  filters on, its channel (the tasks of the matching events, oldest first) and whether
  it is still subscribed (\<open>cancel\<close> not yet called).
\<close>

record 'c Subscription =
  watchID :: string
  events :: "'c Task list"
  live :: bool

definition deliver :: "'c Event \<Rightarrow> 'c Subscription \<Rightarrow> 'c Subscription" where
  "deliver ev sub =
     (case ev of
        EventUpdateTask t \<Rightarrow>
          if live sub \<and> ID t = watchID sub then sub\<lparr>events := events sub @ [t]\<rparr> else sub
      | _ \<Rightarrow> sub)"

definition publish :: "'c Event \<Rightarrow> 'c Subscription list \<Rightarrow> 'c Subscription list" where
  "publish ev q = map (deliver ev) q"

fun publishAll :: "'c Event list \<Rightarrow> 'c Subscription list \<Rightarrow> 'c Subscription list" where
  "publishAll [] q = q"
| "publishAll (ev # evs) q = publishAll evs (publish ev q)"

definition Watch :: "'c Subscription list \<Rightarrow> string \<Rightarrow> 'c Subscription list \<times> nat" where
  "Watch q i = (q @ [\<lparr>watchID = i, events = [], live = True\<rparr>], length q)"

definition cancelWatch :: "nat \<Rightarrow> 'c Subscription list \<Rightarrow> 'c Subscription list" where
  "cancelWatch h q = (if h < length q then q[h := (q ! h)\<lparr>live := False\<rparr>] else q)"

datatype 'c UpdateResult =
    UpdatePanic panic
  | UpdateRejected error
  | UpdateCommitted "'c Store" "'c Subscription list"

definition store_Update ::
  "('c Tx \<Rightarrow> 'c Tx result) \<Rightarrow> 'c Store \<Rightarrow> 'c Subscription list \<Rightarrow> 'c UpdateResult" where
  "store_Update f st q =
     (case f \<lparr>view = st, changes = []\<rparr> of
        Panic p \<Rightarrow> UpdatePanic p
      | Failed err \<Rightarrow> UpdateRejected err
      | Ok tx \<Rightarrow> UpdateCommitted (view tx) (publishAll (changes tx) q))"

subsection \<open>Updater.updateTask: the transaction (lines 180-191)\<close>

definition updateTask_tx :: "'c Task \<Rightarrow> 'c Task \<Rightarrow> 'c Tx \<Rightarrow> 'c Tx result" where
  "updateTask_tx original updated tx =
     (case GetTask tx (ID original) of
        None \<Rightarrow> Panic NilDereference
      | Some t \<Rightarrow>
          (case UpdateTask tx (t\<lparr>DesiredState := TaskStateDead\<rparr>) of
             Inl err \<Rightarrow> Failed err
           | Inr tx1 \<Rightarrow>
               (case CreateTask tx1 updated of
                  Inl err \<Rightarrow> Failed err
                | Inr tx2 \<Rightarrow> Ok tx2)))"

subsection \<open>Goroutines and their program counters\<close>

datatype chan = Open | Closed

record Updater =
  stopChan :: chan
  doneChan :: chan

text \<open>
  Inside \<open>updateTask\<close>: before \<open>state.Watch\<close> (line 173); holding subscription \<open>h\<close>
  before \<open>u.store.Update\<close> (line 180); in the select of the wait loop (line 199);
  returned with its error, the deferred \<open>cancel()\<close> done.
\<close>

datatype updateTask_pc = UTWatch | UTUpdate nat | UTWait nat | UTReturn "error option"

text \<open>
  A worker: receiving from the queue (line 150); holding the received task before
  \<open>newTask\<close> (line 151); inside \<open>updateTask original updated\<close>; in the select of the
  delay (line 161); returned, \<open>wg.Done()\<close> called.
\<close>

datatype 'c worker_pc =
    WRange
  | WNewTask "'c Task"
  | WUpdateTask "'c Task" "'c Task" updateTask_pc
  | WDelay
  | WExit

text \<open>
  \<open>Run\<close>: called with the tasks; in the loop of line 135 with the dirty tasks it has
  not yet reached; in \<open>wg.Wait()\<close> with the queue closed; returned.
\<close>

datatype 'c run_pc = RStart "'c Task list" | RDispatch "'c Task list" | RWait | RReturned

text \<open>A caller of \<open>Cancel\<close>: before \<open>close(u.stopChan)\<close>, blocked in \<open><-u.doneChan\<close>, returned.\<close>

datatype cancel_pc = CClose | CWait | CReturned

text \<open>The transactions \<open>updateTask\<close> has issued, by original and successor identifier.\<close>

datatype txEntry = TxCommitted string string | TxRejected string string error

record 'c system =
  store :: "'c Store"
  watchQueue :: "'c Subscription list"
  updater :: Updater
  taskQueue :: chan
  runPC :: "'c run_pc"
  workers :: "'c worker_pc list"
  cancels :: "cancel_pc list"
  errorLog :: "(string \<times> error) list"
  txLog :: "txEntry list"
  panicked :: "panic option"

text \<open>
  \<open>NewUpdater\<close> followed by the call of \<open>Run\<close> on \<open>tasks\<close>, with \<open>n\<close> goroutines that
  are going to call \<open>Cancel\<close>.
\<close>

definition init :: "'c Store \<Rightarrow> 'c Task list \<Rightarrow> nat \<Rightarrow> 'c system" where
  "init st tasks n =
     \<lparr>store = st, watchQueue = [], updater = \<lparr>stopChan = Open, doneChan = Open\<rparr>,
      taskQueue = Open, runPC = RStart tasks, workers = [], cancels = replicate n CClose,
      errorLog = [], txLog = [], panicked = None\<rparr>"

definition worker_at :: "'c system \<Rightarrow> nat \<Rightarrow> 'c worker_pc option" where
  "worker_at s i = (if i < length (workers s) then Some (workers s ! i) else None)"

definition set_worker :: "nat \<Rightarrow> 'c worker_pc \<Rightarrow> 'c system \<Rightarrow> 'c system" where
  "set_worker i w s = s\<lparr>workers := (workers s)[i := w]\<rparr>"

subsection \<open>Updater.Cancel (lines 89-92)\<close>

text \<open>Closing a closed channel panics; receiving from \<open>doneChan\<close> blocks until it is closed.\<close>

definition Cancel_close :: "Updater \<Rightarrow> panic + Updater" where
  "Cancel_close u =
     (if stopChan u = Closed then Inl CloseOfClosedChannel else Inr (u\<lparr>stopChan := Closed\<rparr>))"

definition Cancel_ready :: "Updater \<Rightarrow> bool" where
  "Cancel_ready u = (doneChan u = Closed)"

definition doCancelClose :: "nat \<Rightarrow> 'c system \<Rightarrow> 'c system option" where
  "doCancelClose k s =
     (if k < length (cancels s) \<and> cancels s ! k = CClose then
        (case Cancel_close (updater s) of
           Inl p \<Rightarrow> Some (s\<lparr>panicked := Some p\<rparr>)
         | Inr u \<Rightarrow> Some (s\<lparr>updater := u, cancels := (cancels s)[k := CWait]\<rparr>))
      else None)"

definition doCancelWait :: "nat \<Rightarrow> 'c system \<Rightarrow> 'c system option" where
  "doCancelWait k s =
     (if k < length (cancels s) \<and> cancels s ! k = CWait \<and> Cancel_ready (updater s)
      then Some (s\<lparr>cancels := (cancels s)[k := CReturned]\<rparr>)
      else None)"

subsection \<open>Updater.Run (lines 95-147)\<close>

text \<open>
  Lines 114-122. \<open>int(...)\<close> of an unsigned 64-bit value reads its bits as two's
  complement, and \<open>len(dirtyTasks)\<close> is the second argument.
\<close>

definition effectiveParallelism :: "'c Service \<Rightarrow> nat \<Rightarrow> int" where
  "effectiveParallelism service n =
     (let parallelism = (case Update (Spec service) of None \<Rightarrow> 0 | Some us \<Rightarrow> sint (Parallelism us))
      in if parallelism = 0 then int n else parallelism)"

text \<open>
  Lines 96-133, which touch no shared state before the workers exist: the diff, the
  early return (with the deferred \<open>close(u.doneChan)\<close>), the queue, \<open>wg.Add\<close>, which
  panics on a negative counter, and the start of the workers.
\<close>

definition doRunStart :: "'c::zero Service \<Rightarrow> 'c system \<Rightarrow> 'c system option" where
  "doRunStart service s =
     (case runPC s of
        RStart tasks \<Rightarrow>
          (case dirtyTasks service [] tasks of
             Inl p \<Rightarrow> Some (s\<lparr>panicked := Some p\<rparr>)
           | Inr dirty \<Rightarrow>
               if dirty = [] then
                 Some (s\<lparr>updater := (updater s)\<lparr>doneChan := Closed\<rparr>, runPC := RReturned\<rparr>)
               else if effectiveParallelism service (length dirty) < 0 then
                 Some (s\<lparr>panicked := Some NegativeWaitGroupCounter\<rparr>)
               else
                 Some (s\<lparr>taskQueue := Open, runPC := RDispatch dirty,
                         workers := replicate (nat (effectiveParallelism service (length dirty))) WRange\<rparr>))
      | _ \<Rightarrow> None)"

text \<open>
  The select of line 137. The queue is unbuffered: the send case is ready only while a
  worker is receiving, and the task goes to that worker. The stop case is ready once
  \<open>stopChan\<close> is closed; its \<open>break\<close> leaves the select, not the loop, so the loop goes
  on with the next dirty task.
\<close>

definition doSend :: "nat \<Rightarrow> 'c system \<Rightarrow> 'c system option" where
  "doSend i s =
     (case runPC s of
        RDispatch (t # ts) \<Rightarrow>
          if worker_at s i = Some WRange
          then Some (set_worker i (WNewTask t) (s\<lparr>runPC := RDispatch ts\<rparr>))
          else None
      | _ \<Rightarrow> None)"

definition doSelectStop :: "'c system \<Rightarrow> 'c system option" where
  "doSelectStop s =
     (case runPC s of
        RDispatch (t # ts) \<Rightarrow>
          if stopChan (updater s) = Closed then Some (s\<lparr>runPC := RDispatch ts\<rparr>) else None
      | _ \<Rightarrow> None)"

text \<open>Line 145, after the loop.\<close>

definition doCloseQueue :: "'c system \<Rightarrow> 'c system option" where
  "doCloseQueue s =
     (case runPC s of
        RDispatch [] \<Rightarrow> Some (s\<lparr>taskQueue := Closed, runPC := RWait\<rparr>)
      | _ \<Rightarrow> None)"

text \<open>Line 146 and the return: \<open>wg.Wait()\<close> blocks until every worker has returned.\<close>

definition doWaitReturn :: "'c system \<Rightarrow> 'c system option" where
  "doWaitReturn s =
     (case runPC s of
        RWait \<Rightarrow>
          if list_all (\<lambda>w. w = WExit) (workers s)
          then Some (s\<lparr>updater := (updater s)\<lparr>doneChan := Closed\<rparr>, runPC := RReturned\<rparr>)
          else None
      | _ \<Rightarrow> None)"

subsection \<open>Updater.worker (lines 149-168)\<close>

text \<open>
  Modelled from the spec: \<open>newTask\<close> is defined elsewhere in the package. The replacement
  carries a fresh identifier (here \<open>fresh\<close>, chosen by the caller of the step), the
  service's container specification and the instance it is given.
\<close>

definition newTask :: "'c::zero Service \<Rightarrow> nat \<Rightarrow> string \<Rightarrow> 'c Task" where
  "newTask service instance fresh =
     \<lparr>ID = fresh, ServiceID = ServiceIdent service, Instance = instance, NodeID = [],
      TaskContainer =
        Some \<lparr>ContainerSpec = (case SpecContainer (Spec service) of None \<Rightarrow> 0 | Some c \<Rightarrow> c)\<rparr>,
      DesiredState = TaskStateRunning, Status = \<lparr>State = TaskStateNew\<rparr>\<rparr>"

text \<open>Lines 151-154.\<close>

definition replacement :: "'c::zero Service \<Rightarrow> 'c Task \<Rightarrow> string \<Rightarrow> 'c Task" where
  "replacement service t fresh =
     (if Mode (Spec service) = ServiceModeFill
      then (newTask service (Instance t) fresh)\<lparr>NodeID := NodeID t\<rparr>
      else newTask service (Instance t) fresh)"

text \<open>
  A step of a worker is a function of its own program counter and the shared state; it
  yields the new program counter and the new shared state, or nothing while the worker
  is blocked or elsewhere.
\<close>

text \<open>Line 150 on a closed queue: the loop ends and the worker returns.\<close>

definition doRangeClosed :: "'c worker_pc \<Rightarrow> 'c system \<Rightarrow> ('c worker_pc \<times> 'c system) option" where
  "doRangeClosed w s =
     (case w of
        WRange \<Rightarrow> if taskQueue s = Closed then Some (WExit, s) else None
      | _ \<Rightarrow> None)"

definition doNewTask ::
  "'c::zero Service \<Rightarrow> string \<Rightarrow> 'c worker_pc \<Rightarrow> 'c system \<Rightarrow> ('c worker_pc \<times> 'c system) option" where
  "doNewTask service fresh w s =
     (case w of
        WNewTask t \<Rightarrow> Some (WUpdateTask t (replacement service t fresh) UTWatch, s)
      | _ \<Rightarrow> None)"

text \<open>
  Lines 156-166, once \<open>updateTask\<close> has returned: an error is logged under the original
  task's identifier, and the worker goes to the delay or back to the queue.
\<close>

definition afterUpdate :: "'c Service \<Rightarrow> 'c worker_pc" where
  "afterUpdate service =
     (case Update (Spec service) of
        None \<Rightarrow> WRange
      | Some us \<Rightarrow> if Delay us \<noteq> 0 then WDelay else WRange)"

definition logError :: "string \<Rightarrow> error option \<Rightarrow> (string \<times> error) list \<Rightarrow> (string \<times> error) list" where
  "logError i r lg = (case r of None \<Rightarrow> lg | Some err \<Rightarrow> lg @ [(i, err)])"

definition doReturn :: "'c Service \<Rightarrow> 'c worker_pc \<Rightarrow> 'c system \<Rightarrow> ('c worker_pc \<times> 'c system) option" where
  "doReturn service w s =
     (case w of
        WUpdateTask t updated (UTReturn r) \<Rightarrow>
          Some (afterUpdate service, s\<lparr>errorLog := logError (ID t) r (errorLog s)\<rparr>)
      | _ \<Rightarrow> None)"

text \<open>The select of line 161: the timer fires, or \<open>stopChan\<close> is closed and the worker returns.\<close>

definition doDelayElapsed :: "'c worker_pc \<Rightarrow> 'c system \<Rightarrow> ('c worker_pc \<times> 'c system) option" where
  "doDelayElapsed w s = (case w of WDelay \<Rightarrow> Some (WRange, s) | _ \<Rightarrow> None)"

definition doDelayStop :: "'c worker_pc \<Rightarrow> 'c system \<Rightarrow> ('c worker_pc \<times> 'c system) option" where
  "doDelayStop w s =
     (case w of
        WDelay \<Rightarrow> if stopChan (updater s) = Closed then Some (WExit, s) else None
      | _ \<Rightarrow> None)"

subsection \<open>Updater.updateTask (lines 170-209)\<close>

text \<open>Lines 173-177: the subscription on the successor's identifier.\<close>

definition doWatch :: "'c worker_pc \<Rightarrow> 'c system \<Rightarrow> ('c worker_pc \<times> 'c system) option" where
  "doWatch w s =
     (case w of
        WUpdateTask original updated UTWatch \<Rightarrow>
          Some (WUpdateTask original updated (UTUpdate (snd (Watch (watchQueue s) (ID updated)))),
                s\<lparr>watchQueue := fst (Watch (watchQueue s) (ID updated))\<rparr>)
      | _ \<Rightarrow> None)"

text \<open>
  Lines 180-194: the one call of \<open>u.store.Update\<close>. A rejection is returned (the deferred
  \<open>cancel()\<close> runs); a nil dereference inside the transaction panics.
\<close>

definition doUpdate :: "'c worker_pc \<Rightarrow> 'c system \<Rightarrow> ('c worker_pc \<times> 'c system) option" where
  "doUpdate w s =
     (case w of
        WUpdateTask original updated (UTUpdate h) \<Rightarrow>
          (case store_Update (updateTask_tx original updated) (store s) (watchQueue s) of
             UpdatePanic p \<Rightarrow> Some (w, s\<lparr>panicked := Some p\<rparr>)
           | UpdateRejected err \<Rightarrow>
               Some (WUpdateTask original updated (UTReturn (Some err)),
                     s\<lparr>watchQueue := cancelWatch h (watchQueue s),
                        txLog := txLog s @ [TxRejected (ID original) (ID updated) err]\<rparr>)
           | UpdateCommitted st q \<Rightarrow>
               Some (WUpdateTask original updated (UTWait h),
                     s\<lparr>store := st, watchQueue := q,
                        txLog := txLog s @ [TxCommitted (ID original) (ID updated)]\<rparr>))
      | _ \<Rightarrow> None)"

text \<open>
  The select of line 199. An event is received from the subscription's channel: with a
  state of at least running \<open>updateTask\<close> returns nil, otherwise it waits on. Once
  \<open>stopChan\<close> is closed it may return nil instead.
\<close>

definition receive :: "nat \<Rightarrow> 'c Subscription list \<Rightarrow> ('c Task \<times> 'c Subscription list) option" where
  "receive h q =
     (if h < length q then
        (case events (q ! h) of
           [] \<Rightarrow> None
         | e # es \<Rightarrow> Some (e, q[h := (q ! h)\<lparr>events := es\<rparr>]))
      else None)"

definition doRecv :: "'c worker_pc \<Rightarrow> 'c system \<Rightarrow> ('c worker_pc \<times> 'c system) option" where
  "doRecv w s =
     (case w of
        WUpdateTask original updated (UTWait h) \<Rightarrow>
          (case receive h (watchQueue s) of
             None \<Rightarrow> None
           | Some (e, q) \<Rightarrow>
               if state_rank TaskStateRunning \<le> state_rank (State (Status e))
               then Some (WUpdateTask original updated (UTReturn None), s\<lparr>watchQueue := cancelWatch h q\<rparr>)
               else Some (w, s\<lparr>watchQueue := q\<rparr>))
      | _ \<Rightarrow> None)"

definition doWaitStop :: "'c worker_pc \<Rightarrow> 'c system \<Rightarrow> ('c worker_pc \<times> 'c system) option" where
  "doWaitStop w s =
     (case w of
        WUpdateTask original updated (UTWait h) \<Rightarrow>
          if stopChan (updater s) = Closed
          then Some (WUpdateTask original updated (UTReturn None),
                     s\<lparr>watchQueue := cancelWatch h (watchQueue s)\<rparr>)
          else None
      | _ \<Rightarrow> None)"

datatype worker_action =
    RangeClosed | NewTask string | Return | DelayElapsed | DelayStop
  | DoWatch | DoUpdate | Recv | WaitStop

definition worker_step ::
  "'c::zero Service \<Rightarrow> worker_action \<Rightarrow> 'c worker_pc \<Rightarrow> 'c system \<Rightarrow> ('c worker_pc \<times> 'c system) option" where
  "worker_step service wa w s =
     (case wa of
        RangeClosed \<Rightarrow> doRangeClosed w s
      | NewTask fresh \<Rightarrow> doNewTask service fresh w s
      | Return \<Rightarrow> doReturn service w s
      | DelayElapsed \<Rightarrow> doDelayElapsed w s
      | DelayStop \<Rightarrow> doDelayStop w s
      | DoWatch \<Rightarrow> doWatch w s
      | DoUpdate \<Rightarrow> doUpdate w s
      | Recv \<Rightarrow> doRecv w s
      | WaitStop \<Rightarrow> doWaitStop w s)"

definition doWorker :: "'c::zero Service \<Rightarrow> nat \<Rightarrow> worker_action \<Rightarrow> 'c system \<Rightarrow> 'c system option" where
  "doWorker service i wa s =
     (if i < length (workers s) then
        (case worker_step service wa (workers s ! i) s of
           None \<Rightarrow> None
         | Some (w1, s1) \<Rightarrow> Some (set_worker i w1 s1))
      else None)"

subsection \<open>The other users of the store\<close>

text \<open>
  Modelled from the spec: the components that run the tasks report a task's observed
  state, and tasks can be removed, each by a transaction of its own on the same store.
\<close>

definition doEnvUpdateStatus :: "string \<Rightarrow> TaskState \<Rightarrow> 'c system \<Rightarrow> 'c system option" where
  "doEnvUpdateStatus i st s =
     (case store s i of
        None \<Rightarrow> None
      | Some t \<Rightarrow>
          (case store_Update (\<lambda>tx. case UpdateTask tx (t\<lparr>Status := \<lparr>State = st\<rparr>\<rparr>) of
                                       Inl err \<Rightarrow> Failed err | Inr tx1 \<Rightarrow> Ok tx1)
                  (store s) (watchQueue s) of
             UpdateCommitted st1 q \<Rightarrow> Some (s\<lparr>store := st1, watchQueue := q\<rparr>)
           | _ \<Rightarrow> None))"

definition doEnvDeleteTask :: "string \<Rightarrow> 'c system \<Rightarrow> 'c system option" where
  "doEnvDeleteTask i s =
     (case store s i of
        None \<Rightarrow> None
      | Some t \<Rightarrow>
          Some (s\<lparr>store := (store s)(i := None),
                  watchQueue := publish (EventDeleteTask t) (watchQueue s)\<rparr>))"

subsection \<open>Executions\<close>

datatype action =
    ARunStart | ASend nat | ASelectStop | ACloseQueue | AWaitReturn
  | AWorker nat worker_action
  | ACancelClose nat | ACancelWait nat
  | AEnvUpdateStatus string TaskState | AEnvDeleteTask string

text \<open>One step of the scheduler; \<open>None\<close> when the goroutine is blocked or elsewhere.\<close>

definition step :: "'c::zero Service \<Rightarrow> 'c system \<Rightarrow> action \<Rightarrow> 'c system option" where
  "step service s a =
     (if panicked s \<noteq> None then None
      else case a of
        ARunStart \<Rightarrow> doRunStart service s
      | ASend i \<Rightarrow> doSend i s
      | ASelectStop \<Rightarrow> doSelectStop s
      | ACloseQueue \<Rightarrow> doCloseQueue s
      | AWaitReturn \<Rightarrow> doWaitReturn s
      | AWorker i wa \<Rightarrow> doWorker service i wa s
      | ACancelClose k \<Rightarrow> doCancelClose k s
      | ACancelWait k \<Rightarrow> doCancelWait k s
      | AEnvUpdateStatus i st \<Rightarrow> doEnvUpdateStatus i st s
      | AEnvDeleteTask i \<Rightarrow> doEnvDeleteTask i s)"

fun exec :: "'c::zero Service \<Rightarrow> 'c system \<Rightarrow> action list \<Rightarrow> 'c system option" where
  "exec service s [] = Some s"
| "exec service s (a # as) =
     (case step service s a of None \<Rightarrow> None | Some s1 \<Rightarrow> exec service s1 as)"

subsection \<open>UpdateSupervisor.CancelAll (lines 58-65)\<close>

text \<open>
  The registry \<open>u.updates\<close> is the list of its entries in the order in which \<open>range\<close>
  visits them (Go leaves the order open), and \<open>locked\<close> is the mutex \<open>u.l\<close>.
  \<open>CancelAll\<close> is before \<open>u.l.Lock()\<close>; at the head of the loop with \<open>i\<close> entries
  visited; inside \<open>update.Cancel()\<close> of entry \<open>i\<close>, blocked in \<open><-u.doneChan\<close>; or
  returned, the deferred \<open>Unlock\<close> done.
\<close>

datatype cancelAll_pc = CALock | CARange nat | CACancel nat | CAReturned

record UpdateSupervisor =
  updates :: "(string \<times> Updater) list"
  locked :: bool
  cancelAll :: cancelAll_pc
  crashed :: "panic option"

definition doCancelAll :: "UpdateSupervisor \<Rightarrow> UpdateSupervisor option" where
  "doCancelAll s =
     (case cancelAll s of
        CALock \<Rightarrow>
          if locked s then None else Some (s\<lparr>locked := True, cancelAll := CARange 0\<rparr>)
      | CARange i \<Rightarrow>
          if i < length (updates s) then
            (case Cancel_close (snd (updates s ! i)) of
               Inl p \<Rightarrow> Some (s\<lparr>crashed := Some p\<rparr>)
             | Inr u \<Rightarrow>
                 Some (s\<lparr>updates := (updates s)[i := (fst (updates s ! i), u)],
                         cancelAll := CACancel i\<rparr>))
          else Some (s\<lparr>locked := False, cancelAll := CAReturned\<rparr>)
      | CACancel i \<Rightarrow>
          if i < length (updates s) \<and> Cancel_ready (snd (updates s ! i))
          then Some (s\<lparr>cancelAll := CARange (Suc i)\<rparr>)
          else None
      | CAReturned \<Rightarrow> None)"

text \<open>
  The goroutine of line 47 for entry \<open>i\<close>: \<open>Run\<close> returns, which closes \<open>doneChan\<close>;
  then, under the lock, it removes its entry (lines 49-53).
\<close>

definition doRunReturns :: "nat \<Rightarrow> UpdateSupervisor \<Rightarrow> UpdateSupervisor option" where
  "doRunReturns i s =
     (if i < length (updates s) \<and> doneChan (snd (updates s ! i)) = Open
      then Some (s\<lparr>updates := (updates s)[i := (fst (updates s ! i), (snd (updates s ! i))\<lparr>doneChan := Closed\<rparr>)]\<rparr>)
      else None)"

definition doDeregister :: "nat \<Rightarrow> UpdateSupervisor \<Rightarrow> UpdateSupervisor option" where
  "doDeregister i s =
     (if i < length (updates s) \<and> doneChan (snd (updates s ! i)) = Closed \<and> \<not> locked s
      then Some (s\<lparr>updates := take i (updates s) @ drop (Suc i) (updates s)\<rparr>)
      else None)"

datatype sup_action = SCancelAll | SRunReturns nat | SDeregister nat

definition sup_step :: "UpdateSupervisor \<Rightarrow> sup_action \<Rightarrow> UpdateSupervisor option" where
  "sup_step s a =
     (if crashed s \<noteq> None then None
      else case a of
        SCancelAll \<Rightarrow> doCancelAll s
      | SRunReturns i \<Rightarrow> doRunReturns i s
      | SDeregister i \<Rightarrow> doDeregister i s)"

fun sup_exec :: "UpdateSupervisor \<Rightarrow> sup_action list \<Rightarrow> UpdateSupervisor option" where
  "sup_exec s [] = Some s"
| "sup_exec s (a # as) = (case sup_step s a of None \<Rightarrow> None | Some s1 \<Rightarrow> sup_exec s1 as)"

text \<open>\<open>CancelAll\<close> running by itself for at most \<open>n\<close> steps, no other goroutine moving.\<close>

fun cancelAllAlone :: "nat \<Rightarrow> UpdateSupervisor \<Rightarrow> UpdateSupervisor" where
  "cancelAllAlone 0 s = s"
| "cancelAllAlone (Suc n) s =
     (case sup_step s SCancelAll of None \<Rightarrow> s | Some s1 \<Rightarrow> cancelAllAlone n s1)"

definition allStopped :: "UpdateSupervisor \<Rightarrow> bool" where
  "allStopped s = list_all (\<lambda>e. stopChan (snd e) = Closed \<and> doneChan (snd e) = Closed) (updates s)"

subsection \<open>What the goroutines hold\<close>


text \<open>The subscription a worker holds inside \<open>updateTask\<close>, with the successor's identifier.\<close>

definition handle_of :: "'c worker_pc \<Rightarrow> (nat \<times> string) option" where
  "handle_of w =
     (case w of
        WUpdateTask t updated (UTUpdate h) \<Rightarrow> Some (h, ID updated)
      | WUpdateTask t updated (UTWait h) \<Rightarrow> Some (h, ID updated)
      | _ \<Rightarrow> None)"



text \<open>The steps of the other users of the store.\<close>

definition isEnv :: "action \<Rightarrow> bool" where
  "isEnv a = (case a of AEnvUpdateStatus i st \<Rightarrow> True | AEnvDeleteTask i \<Rightarrow> True | _ \<Rightarrow> False)"

subsection \<open>A concrete update\<close>

text \<open>
  A service whose container specification is \<open>1\<close>, with no update policy, and four tasks
  still running specification \<open>2\<close>, all in the store; container specifications are
  numbers here, \<open>0\<close> being the empty one.
\<close>

definition exTask :: "string \<Rightarrow> nat \<Rightarrow> nat Task" where
  "exTask i c =
     \<lparr>ID = i, ServiceID = ''svc'', Instance = 0, NodeID = ''node'',
      TaskContainer = Some \<lparr>ContainerSpec = c\<rparr>,
      DesiredState = TaskStateRunning, Status = \<lparr>State = TaskStateRunning\<rparr>\<rparr>"

definition exService :: "nat Service" where
  "exService =
     \<lparr>ServiceIdent = ''svc'',
      Spec = \<lparr>SpecContainer = Some 1, Update = None, Mode = ServiceModeReplicated\<rparr>\<rparr>"

definition exTasks :: "nat Task list" where
  "exTasks = [exTask ''t1'' 2, exTask ''t2'' 2, exTask ''t3'' 2, exTask ''t4'' 2]"

definition exStore :: "nat Store" where
  "exStore = map_of (map (\<lambda>t. (ID t, t)) exTasks)"



section \<open>Results\<close>

subsection \<open>Unfolding the steps\<close>

lemmas worker_defs = worker_step_def doRangeClosed_def doNewTask_def doReturn_def
  doDelayElapsed_def doDelayStop_def doWatch_def doUpdate_def doRecv_def doWaitStop_def

lemmas run_defs = step_def doRunStart_def doSend_def doSelectStop_def doCloseQueue_def
  doWaitReturn_def doWorker_def doCancelClose_def doCancelWait_def doEnvUpdateStatus_def
  doEnvDeleteTask_def worker_at_def set_worker_def Cancel_close_def Cancel_ready_def

lemmas store_defs = store_Update_def updateTask_tx_def GetTask_def UpdateTask_def
  CreateTask_def publish_def deliver_def Watch_def cancelWatch_def receive_def

lemmas ex_defs = exService_def exTasks_def exStore_def exTask_def init_def isDirty_def
  effectiveParallelism_def replacement_def newTask_def afterUpdate_def logError_def

lemma exec_invariant:
  assumes step: "\<And>s a s1. P s \<Longrightarrow> step service s a = Some s1 \<Longrightarrow> P s1"
  shows "P s \<Longrightarrow> exec service s sched = Some s1 \<Longrightarrow> P s1"
proof (induction sched arbitrary: s)
  case Nil
  then show ?case by simp
next
  case (Cons a as)
  then show ?case using step by (auto split: option.splits)
qed

lemma exec_append:
  "exec service s (as @ bs)
     = (case exec service s as of None \<Rightarrow> None | Some s1 \<Rightarrow> exec service s1 bs)"
  by (induction as arbitrary: s) (auto split: option.splits)





subsection \<open>Diffing\<close>

lemma isDirty_rule:
  "TaskContainer t \<noteq> None \<Longrightarrow> isDirty service t = Inr (dirtyRule service t)"
  by (auto simp: isDirty_def dirtyRule_def emptySpec_def split: option.splits)


text \<open>A task without a container makes the diff panic, whatever the service.\<close>

lemma isDirty_nil: "TaskContainer t = None \<Longrightarrow> isDirty service t = Inl NilDereference"
  by (simp add: isDirty_def)

text \<open>
  The rule does not depend on whether a present but zero-valued container specification
  of the service counts as empty: it is the same rule with empty read as absent.
\<close>

lemma dirtyRule_absent:
  "dirtyRule service t =
     (case TaskContainer t of
        None \<Rightarrow> False
      | Some c \<Rightarrow>
          (case SpecContainer (Spec service) of
             None \<Rightarrow> ContainerSpec c \<noteq> 0
           | Some sc \<Rightarrow> sc \<noteq> ContainerSpec c))"
  by (auto simp: dirtyRule_def emptySpec_def split: option.splits)

lemma dirtyTasks_filter:
  "list_all (\<lambda>t. TaskContainer t \<noteq> None) ts \<Longrightarrow>
     dirtyTasks service acc ts = Inr (acc @ filter (dirtyRule service) ts)"
  by (induction ts arbitrary: acc) (simp_all add: isDirty_rule)










lemma exec_invariant_on:
  assumes step: "\<And>s a s1. P s \<Longrightarrow> Q a \<Longrightarrow> step service s a = Some s1 \<Longrightarrow> P s1"
  shows "list_all Q sched \<Longrightarrow> P s \<Longrightarrow> exec service s sched = Some s1 \<Longrightarrow> P s1"
proof (induction sched arbitrary: s)
  case Nil
  then show ?case by simp
next
  case (Cons a as)
  then show ?case using step by (auto split: option.splits)
qed





text \<open>Once \<open>Run\<close> has returned with no worker started, nothing of the updater moves.\<close>

lemma idle_step:
  assumes "runPC s = RReturned \<and> workers s = [] \<and> txLog s = lg \<and> store s = st"
    and "\<not> isEnv a" and "step service s a = Some s1"
  shows "runPC s1 = RReturned \<and> workers s1 = [] \<and> txLog s1 = lg \<and> store s1 = st"
  using assms
  by (cases a)
     (auto simp: run_defs isEnv_def split: if_splits sum.splits)

lemma idle_step_env:
  assumes "runPC s = RReturned \<and> workers s = [] \<and> txLog s = lg"
    and "step service s a = Some s1"
  shows "runPC s1 = RReturned \<and> workers s1 = [] \<and> txLog s1 = lg"
  using assms
  by (cases a)
     (auto simp: run_defs split: if_splits sum.splits option.splits UpdateResult.splits)


lemma clean_diff:
  "list_all (\<lambda>t. TaskContainer t \<noteq> None \<and> \<not> dirtyRule service t) tasks \<Longrightarrow>
     dirtyTasks service [] tasks = Inr []"
proof -
  assume a: "list_all (\<lambda>t. TaskContainer t \<noteq> None \<and> \<not> dirtyRule service t) tasks"
  then have "list_all (\<lambda>t. TaskContainer t \<noteq> None) tasks" by (simp add: list_all_iff)
  from dirtyTasks_filter [OF this, of service "[]"] a show ?thesis
    by (simp add: list_all_iff filter_empty_conv)
qed

text \<open>
  C8. If every task is clean, \<open>Run\<close> returns at once: its one step closes \<open>doneChan\<close> and
  changes nothing else, so no worker is started and the store is as it was. Whatever runs
  afterwards, there is never a worker and the updater never issues a transaction; as long
  as no other user of the store writes, the store stays unchanged.
\<close>

theorem C8_noop_fast_path:
  assumes "list_all (\<lambda>t. TaskContainer t \<noteq> None \<and> \<not> dirtyRule service t) tasks"
  shows "step service (init st tasks n) ARunStart
           = Some ((init st tasks n)\<lparr>updater := \<lparr>stopChan = Open, doneChan = Closed\<rparr>,
                                     runPC := RReturned\<rparr>)
         \<and> (exec service (init st tasks n) (ARunStart # sched) = Some s \<longrightarrow>
              runPC s = RReturned \<and> workers s = [] \<and> txLog s = []
              \<and> (list_all (\<lambda>a. \<not> isEnv a) sched \<longrightarrow> store s = st))"
proof -
  let ?s1 = "(init st tasks n)\<lparr>updater := \<lparr>stopChan = Open, doneChan = Closed\<rparr>, runPC := RReturned\<rparr>"
  have first: "step service (init st tasks n) ARunStart = Some ?s1"
    using clean_diff [OF assms] by (simp add: step_def doRunStart_def init_def)
  have start: "runPC ?s1 = RReturned \<and> workers ?s1 = [] \<and> txLog ?s1 = []"
    by (simp add: init_def)
  have start_st: "runPC ?s1 = RReturned \<and> workers ?s1 = [] \<and> txLog ?s1 = [] \<and> store ?s1 = st"
    by (simp add: init_def)
  {
    assume ex: "exec service (init st tasks n) (ARunStart # sched) = Some s"
    with first have rest: "exec service ?s1 sched = Some s" by simp
    have a: "runPC s = RReturned \<and> workers s = [] \<and> txLog s = []"
      by (rule exec_invariant [where P = "\<lambda>s. runPC s = RReturned \<and> workers s = [] \<and> txLog s = []",
            OF _ start rest]) (rule idle_step_env)
    have b: "list_all (\<lambda>a. \<not> isEnv a) sched \<longrightarrow> store s = st"
    proof
      assume q: "list_all (\<lambda>a. \<not> isEnv a) sched"
      have "runPC s = RReturned \<and> workers s = [] \<and> txLog s = [] \<and> store s = st"
        by (rule exec_invariant_on [where Q = "\<lambda>a. \<not> isEnv a"
              and P = "\<lambda>s. runPC s = RReturned \<and> workers s = [] \<and> txLog s = [] \<and> store s = st",
              OF _ q start_st rest]) (rule idle_step)
      then show "store s = st" by simp
    qed
    note a b
  }
  with first show ?thesis by blast
qed

theorem C8_noop_fast_path_witness:
  "list_all (\<lambda>t. TaskContainer t \<noteq> None \<and> \<not> dirtyRule exService t) [exTask ''a'' 1, exTask ''b'' 1]
   \<and> (\<exists>s. exec exService (init exStore [exTask ''a'' 1, exTask ''b'' 1] 1)
            [ARunStart, ACancelClose 0, ACancelWait 0] = Some s
         \<and> runPC s = RReturned \<and> workers s = [] \<and> txLog s = [] \<and> store s = exStore)"
proof -
  let ?ts = "[exTask ''a'' 1, exTask ''b'' 1]"
  have clean: "list_all (\<lambda>t. TaskContainer t \<noteq> None \<and> \<not> dirtyRule exService t) ?ts"
    by (simp add: dirtyRule_def emptySpec_def exService_def exTask_def)
  obtain s where ex: "exec exService (init exStore ?ts 1) (ARunStart # [ACancelClose 0, ACancelWait 0]) = Some s"
    by (simp add: run_defs ex_defs)
  have "list_all (\<lambda>a. \<not> isEnv a) [ACancelClose 0, ACancelWait 0]" by (simp add: isEnv_def)
  with C8_noop_fast_path [OF clean, of exStore 1 "[ACancelClose 0, ACancelWait 0]" s] ex
  have "runPC s = RReturned \<and> workers s = [] \<and> txLog s = [] \<and> store s = exStore" by blast
  with clean ex show ?thesis by auto
qed




subsection \<open>The replacement transaction\<close>

lemma updateTask_tx_missing:
  "st (ID original) = None \<Longrightarrow>
     updateTask_tx original updated \<lparr>view = st, changes = []\<rparr> = Panic NilDereference"
  by (simp add: updateTask_tx_def GetTask_def)


lemma updateTask_tx_reject:
  "st (ID original) = Some t \<Longrightarrow> ID t = ID original \<Longrightarrow> st (ID updated) \<noteq> None \<Longrightarrow>
     updateTask_tx original updated \<lparr>view = st, changes = []\<rparr> = Failed ErrExist"
  by (auto simp: updateTask_tx_def GetTask_def UpdateTask_def CreateTask_def)

lemma step_worker:
  "panicked s = None \<Longrightarrow> i < length (workers s) \<Longrightarrow>
     step service s (AWorker i wa)
       = (case worker_step service wa (workers s ! i) s of
            None \<Rightarrow> None
          | Some (w1, s1) \<Rightarrow> Some (set_worker i w1 s1))"
  by (simp add: step_def doWorker_def)


text \<open>
  C10. The transaction of \<open>updateTask\<close> dereferences what \<open>GetTask\<close> returns: it panics
  with a nil dereference exactly when the original task is not in the store, and only
  otherwise does it commit or return an error. A worker that reaches the transaction
  after the original task has gone panics; no rejection is returned.
\<close>

theorem C10_nil_dereference:
  "(updateTask_tx original updated tx = Panic NilDereference) = (GetTask tx (ID original) = None)
   \<and> (GetTask tx (ID original) \<noteq> None \<longrightarrow>
        (\<exists>tx1. updateTask_tx original updated tx = Ok tx1)
        \<or> (\<exists>err. updateTask_tx original updated tx = Failed err))
   \<and> (panicked s = None \<longrightarrow> i < length (workers s) \<longrightarrow>
        workers s ! i = WUpdateTask original updated (UTUpdate h) \<longrightarrow>
        store s (ID original) = None \<longrightarrow>
        step service s (AWorker i DoUpdate) = Some (s\<lparr>panicked := Some NilDereference\<rparr>))"
proof (intro conjI impI)
  show "(updateTask_tx original updated tx = Panic NilDereference) = (GetTask tx (ID original) = None)"
    by (auto simp: updateTask_tx_def split: option.splits sum.splits)
next
  assume "GetTask tx (ID original) \<noteq> None"
  then show "(\<exists>tx1. updateTask_tx original updated tx = Ok tx1)
      \<or> (\<exists>err. updateTask_tx original updated tx = Failed err)"
    by (auto simp: updateTask_tx_def split: option.splits sum.splits)
next
  assume "panicked s = None" "i < length (workers s)"
    "workers s ! i = WUpdateTask original updated (UTUpdate h)" "store s (ID original) = None"
  then show "step service s (AWorker i DoUpdate) = Some (s\<lparr>panicked := Some NilDereference\<rparr>)"
    by (simp add: step_worker worker_step_def doUpdate_def store_Update_def
        updateTask_tx_missing set_worker_def list_update_same_conv)
qed

theorem C10_nil_dereference_witness:
  "exec exService (init exStore exTasks 0)
     [ARunStart, ASend 0, AWorker 0 (NewTask ''n1''), AWorker 0 DoWatch, AEnvDeleteTask ''t1'']
     \<noteq> None
   \<and> panicked (the (exec exService (init exStore exTasks 0)
        [ARunStart, ASend 0, AWorker 0 (NewTask ''n1''), AWorker 0 DoWatch, AEnvDeleteTask ''t1'',
         AWorker 0 DoUpdate])) = Some NilDereference"
proof -
  let ?sched = "[ARunStart, ASend 0, AWorker 0 (NewTask ''n1''), AWorker 0 DoWatch, AEnvDeleteTask ''t1'']"
  obtain s where ex: "exec exService (init exStore exTasks 0) ?sched = Some s"
    and p: "panicked s = None" and i: "0 < length (workers s)"
    and w: "workers s ! 0 = WUpdateTask (exTask ''t1'' 2) (replacement exService (exTask ''t1'' 2) ''n1'') (UTUpdate 0)"
    and st: "store s (ID (exTask ''t1'' 2)) = None"
    by (simp add: run_defs worker_defs store_defs ex_defs)
  from C10_nil_dereference [of "exTask ''t1'' 2" "replacement exService (exTask ''t1'' 2) ''n1''" _ s 0 0 exService]
    p i w st
  have "step exService s (AWorker 0 DoUpdate) = Some (s\<lparr>panicked := Some NilDereference\<rparr>)"
    by blast
  then have "exec exService s [AWorker 0 DoUpdate] = Some (s\<lparr>panicked := Some NilDereference\<rparr>)"
    by simp
  moreover have "exec exService (init exStore exTasks 0) (?sched @ [AWorker 0 DoUpdate])
      = (case exec exService (init exStore exTasks 0) ?sched of None \<Rightarrow> None
         | Some s1 \<Rightarrow> exec exService s1 [AWorker 0 DoUpdate])"
    by (rule exec_append)
  ultimately show ?thesis using ex by simp
qed


lemma step_update_reject:
  assumes "panicked s = None" and "i < length (workers s)"
    and "workers s ! i = WUpdateTask original updated (UTUpdate h)"
    and "store s (ID original) = Some t" and "ID t = ID original"
    and "store s (ID updated) \<noteq> None"
  shows "step service s (AWorker i DoUpdate)
      = Some (s\<lparr>watchQueue := cancelWatch h (watchQueue s),
                txLog := txLog s @ [TxRejected (ID original) (ID updated) ErrExist],
                workers := (workers s)[i := WUpdateTask original updated (UTReturn (Some ErrExist))]\<rparr>)"
  using assms
  by (simp add: step_worker worker_step_def doUpdate_def store_Update_def
      updateTask_tx_reject set_worker_def)




text \<open>
  C7. When the store rejects the replacement transaction, \<open>updateTask\<close> returns the error
  and the worker logs it under the original task's identifier. The worker then goes on as
  after a successful replacement: back to the queue for the next task, through the delay
  if one is set. Nothing else changes: \<open>Run\<close>, the other workers and the channels are
  as before and nothing panics, so the failure neither aborts the run nor reaches a
  caller.
\<close>

theorem C7_log_and_continue:
  assumes "panicked s = None" and "i < length (workers s)"
  shows "(workers s ! i = WUpdateTask original updated (UTReturn (Some err)) \<longrightarrow>
            step service s (AWorker i Return)
              = Some (s\<lparr>errorLog := errorLog s @ [(ID original, err)],
                        workers := (workers s)[i := afterUpdate service]\<rparr>))
         \<and> (workers s ! i = WUpdateTask original updated (UTUpdate h) \<longrightarrow>
              store s (ID original) = Some t \<longrightarrow> ID t = ID original \<longrightarrow>
              store s (ID updated) \<noteq> None \<longrightarrow>
              exec service s [AWorker i DoUpdate, AWorker i Return]
                = Some (s\<lparr>watchQueue := cancelWatch h (watchQueue s),
                          txLog := txLog s @ [TxRejected (ID original) (ID updated) ErrExist],
                          errorLog := errorLog s @ [(ID original, ErrExist)],
                          workers := (workers s)[i := afterUpdate service]\<rparr>))
         \<and> (workers s ! i = WUpdateTask original updated (UTReturn None) \<longrightarrow>
              step service s (AWorker i Return)
                = Some (s\<lparr>workers := (workers s)[i := afterUpdate service]\<rparr>))
         \<and> (afterUpdate service = WRange \<or> afterUpdate service = WDelay)
         \<and> (workers s ! i = WDelay \<longrightarrow>
              step service s (AWorker i DelayElapsed) = Some (s\<lparr>workers := (workers s)[i := WRange]\<rparr>))"
proof (intro conjI impI)
  assume "workers s ! i = WUpdateTask original updated (UTReturn (Some err))"
  with assms show "step service s (AWorker i Return)
      = Some (s\<lparr>errorLog := errorLog s @ [(ID original, err)],
                workers := (workers s)[i := afterUpdate service]\<rparr>)"
    by (simp add: step_worker worker_step_def doReturn_def logError_def set_worker_def)
next
  assume w: "workers s ! i = WUpdateTask original updated (UTUpdate h)"
    and st: "store s (ID original) = Some t" "ID t = ID original" "store s (ID updated) \<noteq> None"
  let ?s1 = "s\<lparr>watchQueue := cancelWatch h (watchQueue s),
               txLog := txLog s @ [TxRejected (ID original) (ID updated) ErrExist],
               workers := (workers s)[i := WUpdateTask original updated (UTReturn (Some ErrExist))]\<rparr>"
  have a: "step service s (AWorker i DoUpdate) = Some ?s1"
    by (rule step_update_reject [OF assms w st])
  have b: "step service ?s1 (AWorker i Return)
      = Some (?s1\<lparr>errorLog := errorLog ?s1 @ [(ID original, ErrExist)],
                  workers := (workers ?s1)[i := afterUpdate service]\<rparr>)"
    using assms by (simp add: step_worker worker_step_def doReturn_def logError_def set_worker_def)
  from a b show "exec service s [AWorker i DoUpdate, AWorker i Return]
      = Some (s\<lparr>watchQueue := cancelWatch h (watchQueue s),
                txLog := txLog s @ [TxRejected (ID original) (ID updated) ErrExist],
                errorLog := errorLog s @ [(ID original, ErrExist)],
                workers := (workers s)[i := afterUpdate service]\<rparr>)"
    by simp
next
  assume "workers s ! i = WUpdateTask original updated (UTReturn None)"
  with assms show "step service s (AWorker i Return)
      = Some (s\<lparr>workers := (workers s)[i := afterUpdate service]\<rparr>)"
    by (simp add: step_worker worker_step_def doReturn_def logError_def set_worker_def)
next
  show "afterUpdate service = WRange \<or> afterUpdate service = WDelay"
    by (simp add: afterUpdate_def split: option.splits)
next
  assume "workers s ! i = WDelay"
  with assms show "step service s (AWorker i DelayElapsed) = Some (s\<lparr>workers := (workers s)[i := WRange]\<rparr>)"
    by (simp add: step_worker worker_step_def doDelayElapsed_def set_worker_def)
qed


theorem C7_log_and_continue_witness:
  "\<exists>s s1. exec exService (init exStore exTasks 0)
            [ARunStart, ASend 0, AWorker 0 (NewTask ''t2''), AWorker 0 DoWatch] = Some s
     \<and> exec exService s [AWorker 0 DoUpdate, AWorker 0 Return] = Some s1
     \<and> errorLog s1 = [(''t1'', ErrExist)] \<and> workers s1 ! 0 = WRange
     \<and> runPC s1 = runPC s \<and> store s1 = store s \<and> panicked s1 = None"
proof -
  let ?sched = "[ARunStart, ASend 0, AWorker 0 (NewTask ''t2''), AWorker 0 DoWatch]"
  let ?o = "exTask ''t1'' 2" and ?u = "replacement exService (exTask ''t1'' 2) ''t2''"
  obtain s where ex: "exec exService (init exStore exTasks 0) ?sched = Some s"
    and 1: "panicked s = None" and 2: "0 < length (workers s)"
    and 3: "workers s ! 0 = WUpdateTask ?o ?u (UTUpdate 0)"
    and 4: "store s (ID ?o) = Some ?o" and 6: "store s (ID ?u) \<noteq> None"
    and lg: "errorLog s = []"
    by (simp add: run_defs worker_defs store_defs ex_defs)
  have 5: "ID ?o = ID ?o" by simp
  from C7_log_and_continue [OF 1 2, of ?o ?u _ exService 0 ?o] 3 4 5 6
  have "exec exService s [AWorker 0 DoUpdate, AWorker 0 Return]
      = Some (s\<lparr>watchQueue := cancelWatch 0 (watchQueue s),
                txLog := txLog s @ [TxRejected (ID ?o) (ID ?u) ErrExist],
                errorLog := errorLog s @ [(ID ?o, ErrExist)],
                workers := (workers s)[0 := afterUpdate exService]\<rparr>)"
    by blast
  with ex lg 1 2 show ?thesis
    by (simp add: exTask_def exService_def afterUpdate_def)
qed

end
